theory Spec2Isabelle
  imports Complex_Main "HOL-Library.Multiset"
begin

section \<open>Python values\<close>

text \<open>
  A Python \<^verbatim>\<open>float\<close> is a finite number, one of the two infinities, or NaN.  A
  finite float is read as the real number it denotes, and the comparisons are Python's:
  every comparison with NaN is false.  The arithmetic of the BMI in
  \<^verbatim>\<open>who_calculator.py\<close> is the arithmetic of binary64 floats, with its rounding,
  underflow and overflow (see \<open>double_round\<close> below).  The arithmetic of
  \<^verbatim>\<open>growth_charts.py\<close> and \<^verbatim>\<open>kejar_tumbuh.py\<close> is exact arithmetic on the
  reals: there a sum, a product or a quotient is neither rounded nor can it overflow.
\<close>

datatype pyfloat = Finite real | PosInf | NegInf | NaN

fun isnan :: "pyfloat \<Rightarrow> bool" where
  "isnan NaN = True"
| "isnan _ = False"

fun isinf :: "pyfloat \<Rightarrow> bool" where
  "isinf PosInf = True"
| "isinf NegInf = True"
| "isinf _ = False"

fun flt_lt :: "pyfloat \<Rightarrow> pyfloat \<Rightarrow> bool" where
  "flt_lt NaN _ = False"
| "flt_lt _ NaN = False"
| "flt_lt (Finite x) (Finite y) = (x < y)"
| "flt_lt _ NegInf = False"
| "flt_lt PosInf _ = False"
| "flt_lt NegInf _ = True"
| "flt_lt (Finite x) PosInf = True"

fun flt_le :: "pyfloat \<Rightarrow> pyfloat \<Rightarrow> bool" where
  "flt_le NaN _ = False"
| "flt_le _ NaN = False"
| "flt_le (Finite x) (Finite y) = (x \<le> y)"
| "flt_le NegInf _ = True"
| "flt_le _ PosInf = True"
| "flt_le PosInf _ = False"
| "flt_le (Finite x) NegInf = False"

fun flt_abs :: "pyfloat \<Rightarrow> pyfloat" where
  "flt_abs (Finite x) = Finite \<bar>x\<bar>"
| "flt_abs PosInf = PosInf"
| "flt_abs NegInf = PosInf"
| "flt_abs NaN = NaN"

datatype py_error = ZeroDivisionError | ValueError | OverflowError

text \<open>
  Rounding to the nearest integer, a tie going to the even one.
\<close>

definition round_half_even :: "real \<Rightarrow> int" where
  "round_half_even y =
     (let fl = \<lfloor>y\<rfloor>;
          d = y - of_int fl
      in if d < 1 / 2 then fl
         else if 1 / 2 < d then fl + 1
         else if even fl then fl else fl + 1)"

text \<open>
  Binary64: a finite float is a multiple of \<open>2 powi (e - 52)\<close>, where \<open>e\<close> is the
  exponent of its binade, \<open>2 powi e \<le> \<bar>x\<bar> < 2 powi (e + 1)\<close>, between \<open>- 1022\<close>
  and \<open>1023\<close>; below \<open>2 powi (- 1022)\<close> the spacing stays \<open>2 powi (- 1074)\<close>
  (subnormal numbers).  The result of an operation is the exact result rounded to the
  nearest float, ties to even; a rounded magnitude of \<open>2 ^ 1024\<close> or more is an
  overflow, shown here as an infinity.
\<close>

definition binade :: "real \<Rightarrow> int" where
  "binade x =
     (if \<bar>x\<bar> < 2 powi (- 1022) then - 1022
      else Max {e \<in> {- 1022..1023}. 2 powi e \<le> \<bar>x\<bar>})"

definition double_round :: "real \<Rightarrow> pyfloat" where
  "double_round x =
     (let ulp = 2 powi (binade x - 52);
          r = of_int (round_half_even (x / ulp)) * ulp
      in if 2 ^ 1024 \<le> \<bar>r\<bar> then (if 0 < x then PosInf else NegInf) else Finite r)"

text \<open>
  Python's \<^verbatim>\<open>a / b\<close> on floats: \<^verbatim>\<open>ZeroDivisionError\<close> for a zero divisor,
  whatever the dividend; otherwise the IEEE quotient, which overflows to an infinity
  without an exception.
\<close>

fun flt_truediv :: "pyfloat \<Rightarrow> pyfloat \<Rightarrow> py_error + pyfloat" where
  "flt_truediv a (Finite y) =
     (if y = 0 then Inl ZeroDivisionError
      else (case a of
              Finite x \<Rightarrow> Inr (double_round (x / y))
            | PosInf \<Rightarrow> Inr (if 0 < y then PosInf else NegInf)
            | NegInf \<Rightarrow> Inr (if 0 < y then NegInf else PosInf)
            | NaN \<Rightarrow> Inr NaN))"
| "flt_truediv NaN _ = Inr NaN"
| "flt_truediv _ NaN = Inr NaN"
| "flt_truediv (Finite x) _ = Inr (Finite 0)"
| "flt_truediv _ _ = Inr NaN"

text \<open>
  Python's \<^verbatim>\<open>x ** 2\<close> on a float: \<^verbatim>\<open>OverflowError\<close> when the square of a
  finite float is out of range; a square that underflows is a subnormal number or zero,
  without an exception.  The square is taken as correctly rounded.
\<close>

fun flt_pow2 :: "pyfloat \<Rightarrow> py_error + pyfloat" where
  "flt_pow2 (Finite x) =
     (case double_round (x * x) of
        Finite y \<Rightarrow> Inr (Finite y)
      | _ \<Rightarrow> Inl OverflowError)"
| "flt_pow2 NaN = Inr NaN"
| "flt_pow2 _ = Inr PosInf"

text \<open>
  A dictionary with string keys whose values may be \<^verbatim>\<open>None\<close>, and
  \<^verbatim>\<open>d.get(k)\<close>, which is \<^verbatim>\<open>None\<close> for a missing key as well.
\<close>

type_synonym zscores = "string \<rightharpoonup> pyfloat option"

definition dict_get :: "zscores \<Rightarrow> string \<Rightarrow> pyfloat option" where
  "dict_get d k = (case d k of None \<Rightarrow> None | Some v \<Rightarrow> v)"


section \<open>who_calculator.py: safe z-score calculation\<close>

text \<open>
  The pygrowup calculator is an external collaborator.  One call of one of its methods,
  followed by \<^verbatim>\<open>float(z)\<close>, has one of three outcomes: an exception, \<^verbatim>\<open>None\<close>, or
  a float.  The module global \<^verbatim>\<open>calc\<close> is \<^verbatim>\<open>None\<close> when the import or the
  construction of the calculator failed.
\<close>

datatype outcome = Raised | ReturnedNone | Returned pyfloat

record calculator =
  wfa :: "real \<Rightarrow> real \<Rightarrow> string \<Rightarrow> outcome"
  lhfa :: "real \<Rightarrow> real \<Rightarrow> string \<Rightarrow> outcome"
  wfl :: "real \<Rightarrow> real \<Rightarrow> string \<Rightarrow> real \<Rightarrow> outcome"
  bmifa :: "pyfloat \<Rightarrow> real \<Rightarrow> string \<Rightarrow> outcome"
  hcfa :: "real \<Rightarrow> real \<Rightarrow> string \<Rightarrow> outcome"

text \<open>
  \<^verbatim>\<open>_safe_z_calc(calc_func, *args)\<close>: the second argument is the outcome of
  \<^verbatim>\<open>calc_func(*args)\<close>, which is looked at only when \<^verbatim>\<open>calc\<close> is there.
\<close>

definition safe_z_calc :: "calculator option \<Rightarrow> outcome \<Rightarrow> pyfloat option" where
  "safe_z_calc calc res =
     (case calc of
        None \<Rightarrow> None
      | Some _ \<Rightarrow>
          (case res of
             Raised \<Rightarrow> None
           | ReturnedNone \<Rightarrow> None
           | Returned z_float \<Rightarrow>
               if isnan z_float \<or> isinf z_float then None else Some z_float))"

text \<open>
  The expression \<^verbatim>\<open>weight / ((height / 100) ** 2)\<close> of
  \<^verbatim>\<open>calculate_all_zscores\<close>, evaluated on floats from the inside out.
\<close>

definition float_bmi :: "real \<Rightarrow> real \<Rightarrow> py_error + pyfloat" where
  "float_bmi weight height =
     (case flt_truediv (Finite height) (Finite 100) of
        Inl e \<Rightarrow> Inl e
      | Inr q \<Rightarrow>
          (case flt_pow2 q of
             Inl e \<Rightarrow> Inl e
           | Inr sq \<Rightarrow> flt_truediv (Finite weight) sq))"

text \<open>
  \<^verbatim>\<open>calculate_all_zscores(sex, age_months, weight, height, head_circ)\<close>, with the
  module global \<^verbatim>\<open>calc\<close> as a first argument.  The measurements are optional finite
  floats.  The computation of the BMI stands outside \<^verbatim>\<open>_safe_z_calc\<close> and outside
  any \<^verbatim>\<open>try\<close>: an exception of its arithmetic leaves the function.
\<close>

definition calculate_all_zscores ::
  "calculator option \<Rightarrow> string \<Rightarrow> real \<Rightarrow> real option \<Rightarrow> real option \<Rightarrow> real option
     \<Rightarrow> py_error + zscores" where
  "calculate_all_zscores calc sex age_months weight height head_circ =
     (let results = [''waz'' \<mapsto> None, ''haz'' \<mapsto> None, ''whz'' \<mapsto> None,
                     ''baz'' \<mapsto> None, ''hcz'' \<mapsto> None]
      in case calc of
        None \<Rightarrow> Inr results
      | Some c \<Rightarrow>
          let results =
                (case weight of
                   Some w \<Rightarrow> results(''waz'' \<mapsto> safe_z_calc calc (wfa c w age_months sex))
                 | None \<Rightarrow> results);
              results =
                (case height of
                   Some h \<Rightarrow> results(''haz'' \<mapsto> safe_z_calc calc (lhfa c h age_months sex))
                 | None \<Rightarrow> results);
              results =
                (case (weight, height) of
                   (Some w, Some h) \<Rightarrow>
                     results(''whz'' \<mapsto> safe_z_calc calc (wfl c w age_months sex h))
                 | _ \<Rightarrow> results);
              with_baz =
                (case (weight, height) of
                   (Some w, Some h) \<Rightarrow>
                     if h > 0 then
                       (case float_bmi w h of
                          Inl e \<Rightarrow> Inl e
                        | Inr bmi \<Rightarrow>
                            Inr (results(''baz'' \<mapsto> safe_z_calc calc (bmifa c bmi age_months sex))))
                     else Inr results
                 | _ \<Rightarrow> Inr results)
          in case with_baz of
               Inl e \<Rightarrow> Inl e
             | Inr results \<Rightarrow>
                 Inr (case head_circ of
                        Some hc \<Rightarrow> results(''hcz'' \<mapsto> safe_z_calc calc (hcfa c hc age_months sex))
                      | None \<Rightarrow> results))"


section \<open>who_calculator.py: the two classifiers\<close>

text \<open>
  Each classifier reads the five z-scores with \<^verbatim>\<open>z_scores.get\<close> and writes one
  label per indicator.  The five blocks of each function are given one definition each,
  in the order of the source; the guard of every block is
  \<^verbatim>\<open>z is not None and not math.isnan(z)\<close>.
\<close>

definition permenkes_waz :: "pyfloat option \<Rightarrow> string" where
  "permenkes_waz waz =
     (case waz of
        None \<Rightarrow> ''Data Tidak Tersedia''
      | Some w \<Rightarrow>
          if \<not> isnan w then
            (if flt_lt w (Finite (- 3)) then ''Berat Badan Sangat Kurang''
             else if flt_lt w (Finite (- 2)) then ''Berat Badan Kurang''
             else if flt_le w (Finite 2) then ''Berat Badan Normal''
             else ''Risiko Berat Badan Lebih'')
          else ''Data Tidak Tersedia'')"

definition permenkes_haz :: "pyfloat option \<Rightarrow> string" where
  "permenkes_haz haz =
     (case haz of
        None \<Rightarrow> ''Data Tidak Tersedia''
      | Some h \<Rightarrow>
          if \<not> isnan h then
            (if flt_lt h (Finite (- 3)) then ''Sangat Pendek (Severely Stunted)''
             else if flt_lt h (Finite (- 2)) then ''Pendek (Stunted)''
             else if flt_le h (Finite 3) then ''Tinggi Badan Normal''
             else ''Tinggi Badan Berlebih'')
          else ''Data Tidak Tersedia'')"

definition permenkes_whz :: "pyfloat option \<Rightarrow> string" where
  "permenkes_whz whz =
     (case whz of
        None \<Rightarrow> ''Data Tidak Tersedia''
      | Some w \<Rightarrow>
          if \<not> isnan w then
            (if flt_lt w (Finite (- 3)) then ''Gizi Buruk (Severely Wasted)''
             else if flt_lt w (Finite (- 2)) then ''Gizi Kurang (Wasted)''
             else if flt_le w (Finite 2) then ''Gizi Baik (Normal)''
             else if flt_le w (Finite 3)
               then ''Berisiko Gizi Lebih (Possible Risk of Overweight)''
             else ''Gizi Lebih (Overweight)'')
          else ''Data Tidak Tersedia'')"

definition permenkes_baz :: "pyfloat option \<Rightarrow> string" where
  "permenkes_baz baz =
     (case baz of
        None \<Rightarrow> ''Data Tidak Tersedia''
      | Some b \<Rightarrow>
          if \<not> isnan b then
            (if flt_lt b (Finite (- 3)) then ''Gizi Buruk (Severely Wasted)''
             else if flt_lt b (Finite (- 2)) then ''Gizi Kurang (Wasted)''
             else if flt_le b (Finite 1) then ''Gizi Baik (Normal)''
             else if flt_le b (Finite 2)
               then ''Berisiko Gizi Lebih (Possible Risk of Overweight)''
             else if flt_le b (Finite 3) then ''Gizi Lebih (Overweight)''
             else ''Obesitas (Obese)'')
          else ''Data Tidak Tersedia'')"

definition permenkes_hcz :: "pyfloat option \<Rightarrow> string" where
  "permenkes_hcz hcz =
     (case hcz of
        None \<Rightarrow> ''Data Tidak Tersedia''
      | Some h \<Rightarrow>
          if \<not> isnan h then
            (if flt_le (flt_abs h) (Finite 2) then ''Normal''
             else if flt_lt h (Finite (- 2)) then ''Mikrosefali (perlu evaluasi)''
             else ''Makrosefali (perlu evaluasi)'')
          else ''Data Tidak Tersedia'')"

definition classify_permenkes_2020 :: "zscores \<Rightarrow> (string \<rightharpoonup> string)" where
  "classify_permenkes_2020 z_scores =
     [''waz'' \<mapsto> permenkes_waz (dict_get z_scores ''waz''),
      ''haz'' \<mapsto> permenkes_haz (dict_get z_scores ''haz''),
      ''whz'' \<mapsto> permenkes_whz (dict_get z_scores ''whz''),
      ''baz'' \<mapsto> permenkes_baz (dict_get z_scores ''baz''),
      ''hcz'' \<mapsto> permenkes_hcz (dict_get z_scores ''hcz'')]"

definition who_waz :: "pyfloat option \<Rightarrow> string" where
  "who_waz waz =
     (case waz of
        None \<Rightarrow> ''N/A''
      | Some w \<Rightarrow>
          if \<not> isnan w then
            (if flt_lt w (Finite (- 3)) then ''Severely underweight''
             else if flt_lt w (Finite (- 2)) then ''Underweight''
             else if flt_le w (Finite 2) then ''Normal weight''
             else ''Overweight'')
          else ''N/A'')"

definition who_haz :: "pyfloat option \<Rightarrow> string" where
  "who_haz haz =
     (case haz of
        None \<Rightarrow> ''N/A''
      | Some h \<Rightarrow>
          if \<not> isnan h then
            (if flt_lt h (Finite (- 3)) then ''Severely stunted''
             else if flt_lt h (Finite (- 2)) then ''Stunted''
             else if flt_le h (Finite 3) then ''Normal height''
             else ''Tall'')
          else ''N/A'')"

definition who_whz :: "pyfloat option \<Rightarrow> string" where
  "who_whz whz =
     (case whz of
        None \<Rightarrow> ''N/A''
      | Some w \<Rightarrow>
          if \<not> isnan w then
            (if flt_lt w (Finite (- 3)) then ''Severely wasted''
             else if flt_lt w (Finite (- 2)) then ''Wasted''
             else if flt_le w (Finite 2) then ''Normal''
             else if flt_le w (Finite 3) then ''Risk of overweight''
             else ''Overweight'')
          else ''N/A'')"

definition who_baz :: "pyfloat option \<Rightarrow> string" where
  "who_baz baz =
     (case baz of
        None \<Rightarrow> ''N/A''
      | Some b \<Rightarrow>
          if \<not> isnan b then
            (if flt_lt b (Finite (- 3)) then ''Severely wasted''
             else if flt_lt b (Finite (- 2)) then ''Wasted''
             else if flt_le b (Finite 1) then ''Normal''
             else if flt_le b (Finite 2) then ''Risk of overweight''
             else if flt_le b (Finite 3) then ''Overweight''
             else ''Obese'')
          else ''N/A'')"

definition who_hcz :: "pyfloat option \<Rightarrow> string" where
  "who_hcz hcz =
     (case hcz of
        None \<Rightarrow> ''N/A''
      | Some h \<Rightarrow>
          if \<not> isnan h then
            (if flt_le (flt_abs h) (Finite 2) then ''Normal''
             else if flt_lt h (Finite (- 2)) then ''Microcephaly''
             else ''Macrocephaly'')
          else ''N/A'')"

definition classify_who_standards :: "zscores \<Rightarrow> (string \<rightharpoonup> string)" where
  "classify_who_standards z_scores =
     [''waz'' \<mapsto> who_waz (dict_get z_scores ''waz''),
      ''haz'' \<mapsto> who_haz (dict_get z_scores ''haz''),
      ''whz'' \<mapsto> who_whz (dict_get z_scores ''whz''),
      ''baz'' \<mapsto> who_baz (dict_get z_scores ''baz''),
      ''hcz'' \<mapsto> who_hcz (dict_get z_scores ''hcz'')]"


section \<open>growth_charts.py: root finding and curve inversion\<close>

text \<open>
  The z-score functions handed to the inversion are built on \<^verbatim>\<open>_safe_z_calc\<close>: a
  finite float or \<^verbatim>\<open>None\<close>.  \<^verbatim>\<open>np.linspace(start, stop, num)\<close> gives
  \<^verbatim>\<open>num\<close> evenly spaced points with both ends included (the last one is set to
  \<^verbatim>\<open>stop\<close>), and raises \<^verbatim>\<open>ValueError\<close> for a negative \<^verbatim>\<open>num\<close>.
\<close>

definition linspace :: "real \<Rightarrow> real \<Rightarrow> int \<Rightarrow> py_error + real list" where
  "linspace start stop num =
     (if num < 0 then Inl ValueError
      else Inr (map (\<lambda>i. if 1 < num \<and> int i = num - 1 then stop
                           else start + real i * ((stop - start) / real_of_int (num - 1)))
                    [0..<nat num]))"

text \<open>
  The loop of \<^verbatim>\<open>brentq_rootfind\<close>: \<^verbatim>\<open>for iteration in range(maxiter)\<close>, the
  first numeric argument being the iterations that remain.  The second component of the
  result is a ghost counter, the number of iterations that were started; the source
  returns the first component only.  The constant \<^verbatim>\<open>1e-10\<close> is \<open>1 / 10 ^ 10\<close>.
\<close>

fun bisect ::
  "(real \<Rightarrow> real option) \<Rightarrow> real \<Rightarrow> nat \<Rightarrow> real \<Rightarrow> real \<Rightarrow> real \<Rightarrow> real \<Rightarrow> real \<times> nat" where
  "bisect f xtol 0 a b fa fb = (1 / 2 * (a + b), 0)"
| "bisect f xtol (Suc n) a b fa fb =
     (let m = 1 / 2 * (a + b) in
      case f m of
        None \<Rightarrow> (m, 1)
      | Some fm \<Rightarrow>
          if \<bar>fm\<bar> < 1 / 10 ^ 10 \<or> (b - a) / 2 < xtol then (m, 1)
          else
            let (root, iters) =
                  (if fa * fm < 0 then bisect f xtol n a m fa fm
                   else bisect f xtol n m b fm fb)
            in (root, Suc iters))"

definition brentq_run ::
  "(real \<Rightarrow> real option) \<Rightarrow> real \<Rightarrow> real \<Rightarrow> real \<Rightarrow> nat \<Rightarrow> real \<times> nat" where
  "brentq_run f a b xtol maxiter =
     (case f a of
        None \<Rightarrow> ((a + b) / 2, 0)
      | Some fa \<Rightarrow>
          (case f b of
             None \<Rightarrow> ((a + b) / 2, 0)
           | Some fb \<Rightarrow>
               if \<bar>fa\<bar> < 1 / 10 ^ 10 then (a, 0)
               else if \<bar>fb\<bar> < 1 / 10 ^ 10 then (b, 0)
               else if fa * fb > 0 then ((a + b) / 2, 0)
               else bisect f xtol maxiter a b fa fb))"

definition brentq_rootfind ::
  "(real \<Rightarrow> real option) \<Rightarrow> real \<Rightarrow> real \<Rightarrow> real \<Rightarrow> nat \<Rightarrow> real" where
  "brentq_rootfind f a b xtol maxiter = fst (brentq_run f a b xtol maxiter)"

text \<open>The defaults of the keyword arguments.\<close>

definition default_xtol :: real where
  "default_xtol = 1 / 10 ^ 6"

definition default_maxiter :: nat where
  "default_maxiter = 100"

definition default_samples :: int where
  "default_samples = 150"

text \<open>\<^verbatim>\<open>(z_func(t) or 0.0)\<close>: \<^verbatim>\<open>None\<close> and zero both give zero.\<close>

definition or_zero :: "real option \<Rightarrow> real" where
  "or_zero z = (case z of None \<Rightarrow> 0 | Some v \<Rightarrow> if v = 0 then 0 else v)"

text \<open>
  The sampling loop of \<^verbatim>\<open>invert_zscore_function\<close> over the points that remain, with
  its four variables; \<^verbatim>\<open>best_abs\<close> starts at \<^verbatim>\<open>float('inf')\<close>.  The second
  component of the result is a ghost counter of the sample points at which
  \<^verbatim>\<open>z_func\<close> was evaluated.  The root finder is called in a \<^verbatim>\<open>try\<close> whose
  handler goes on with the loop; the only failure it could meet is a missing
  \<^verbatim>\<open>last_x\<close>.
\<close>

fun invert_loop ::
  "(real \<Rightarrow> real option) \<Rightarrow> real \<Rightarrow> real \<Rightarrow> real \<Rightarrow> real list
     \<Rightarrow> real option \<Rightarrow> real option \<Rightarrow> real option \<Rightarrow> pyfloat \<Rightarrow> real \<times> nat" where
  "invert_loop z_func target_z lo hi [] last_x last_f best_x best_abs =
     ((case best_x of Some bx \<Rightarrow> bx | None \<Rightarrow> (lo + hi) / 2), 0)"
| "invert_loop z_func target_z lo hi (x # xs) last_x last_f best_x best_abs =
     (case z_func x of
        None \<Rightarrow>
          (let (r, n) = invert_loop z_func target_z lo hi xs last_x last_f best_x best_abs
           in (r, Suc n))
      | Some z \<Rightarrow>
          let f = z - target_z;
              af = \<bar>f\<bar>;
              best_x' = (if flt_lt (Finite af) best_abs then Some x else best_x);
              best_abs' = (if flt_lt (Finite af) best_abs then Finite af else best_abs);
              bracket = (case last_f of None \<Rightarrow> False | Some lf \<Rightarrow> f * lf < 0);
              (r, n) = invert_loop z_func target_z lo hi xs (Some x) (Some f) best_x' best_abs'
          in case (bracket, last_x) of
               (True, Some lx) \<Rightarrow>
                 (brentq_rootfind (\<lambda>t. Some (or_zero (z_func t) - target_z)) lx x
                    (1 / 10 ^ 5) default_maxiter, 1)
             | _ \<Rightarrow> (r, Suc n))"

definition invert_run ::
  "(real \<Rightarrow> real option) \<Rightarrow> real \<Rightarrow> real \<Rightarrow> real \<Rightarrow> int \<Rightarrow> py_error + real \<times> nat" where
  "invert_run z_func target_z lo hi samples =
     (case linspace lo hi samples of
        Inl e \<Rightarrow> Inl e
      | Inr xs \<Rightarrow> Inr (invert_loop z_func target_z lo hi xs None None None PosInf))"

definition invert_zscore_function ::
  "(real \<Rightarrow> real option) \<Rightarrow> real \<Rightarrow> real \<Rightarrow> real \<Rightarrow> int \<Rightarrow> py_error + real" where
  "invert_zscore_function z_func target_z lo hi samples =
     map_sum id fst (invert_run z_func target_z lo hi samples)"


text \<open>
  Notions for the statements about the fallbacks: the usable samples are the sample
  points where \<^verbatim>\<open>z_func\<close> is not \<^verbatim>\<open>None\<close>, paired with their z-scores; a
  bracket is a pair of consecutive usable samples whose values of \<^verbatim>\<open>z - target_z\<close>
  have a negative product.
\<close>

definition usable_samples :: "(real \<Rightarrow> real option) \<Rightarrow> real list \<Rightarrow> (real \<times> real) list" where
  "usable_samples z_func xs =
     concat (map (\<lambda>x. case z_func x of None \<Rightarrow> [] | Some z \<Rightarrow> [(x, z)]) xs)"

fun sign_change :: "real list \<Rightarrow> bool" where
  "sign_change (a # b # rest) = (b * a < 0 \<or> sign_change (b # rest))"
| "sign_change _ = False"

definition has_bracket :: "(real \<Rightarrow> real option) \<Rightarrow> real \<Rightarrow> real list \<Rightarrow> bool" where
  "has_bracket z_func target_z xs =
     sign_change (map (\<lambda>p. snd p - target_z) (usable_samples z_func xs))"


section \<open>kejar_tumbuh.py: growth velocity\<close>

text \<open>
  Strings are byte lists, so the emoji of the source are written as their UTF-8 bytes.
\<close>

definition emoji_siren :: string where
  "emoji_siren = [CHR 0xF0, CHR 0x9F, CHR 0x9A, CHR 0xA8]"

definition emoji_warning :: string where
  "emoji_warning = [CHR 0xE2, CHR 0x9A, CHR 0xA0, CHR 0xEF, CHR 0xB8, CHR 0x8F]"

definition emoji_chart :: string where
  "emoji_chart = [CHR 0xF0, CHR 0x9F, CHR 0x93, CHR 0x8A]"

definition emoji_check :: string where
  "emoji_check = [CHR 0xE2, CHR 0x9C, CHR 0x85]"

definition emoji_rising :: string where
  "emoji_rising = [CHR 0xF0, CHR 0x9F, CHR 0x93, CHR 0x88]"







record evaluation =
  status :: string
  color :: string
  emoji :: string
  message :: string
  severity :: string

definition evaluate_velocity :: "real \<Rightarrow> real \<times> real \<Rightarrow> string \<Rightarrow> evaluation" where
  "evaluate_velocity velocity reference_range measure_type =
     (let min_normal = fst reference_range; max_normal = snd reference_range in
      if velocity < 0 then
        \<lparr>status = ''Penurunan'', color = ''#d32f2f'', emoji = emoji_siren,
         message = ''Terjadi PENURUNAN '' @ measure_type @ ''! Segera konsultasi ke dokter.'',
         severity = ''critical''\<rparr>
      else if velocity < min_normal * 0.5 then
        \<lparr>status = ''Sangat Lambat'', color = ''#e65100'', emoji = emoji_warning,
         message = ''Pertumbuhan '' @ measure_type @ '' sangat lambat. Perlu evaluasi segera.'',
         severity = ''warning''\<rparr>
      else if velocity < min_normal then
        \<lparr>status = ''Lambat'', color = ''#f57c00'', emoji = emoji_chart,
         message = ''Pertumbuhan '' @ measure_type @ '' di bawah rata-rata. Perlu perhatian.'',
         severity = ''attention''\<rparr>
      else if velocity \<le> max_normal then
        \<lparr>status = ''Normal'', color = ''#388e3c'', emoji = emoji_check,
         message = ''Pertumbuhan '' @ measure_type @ '' dalam rentang normal.'',
         severity = ''normal''\<rparr>
      else
        \<lparr>status = ''Cepat'', color = ''#1976d2'', emoji = emoji_rising,
         message = ''Pertumbuhan '' @ measure_type @ '' di atas rata-rata.'',
         severity = ''good''\<rparr>)"


record velocity =
  periode :: "real \<times> real"
  delta_months :: real
  delta_bb :: real
  delta_tb :: real
  velocity_bb :: real
  velocity_tb :: real
  mid_age :: real











section \<open>Concrete inputs\<close>

text \<open>
  A calculator whose methods show every outcome: NaN, a finite value, an exception, an
  infinity and \<^verbatim>\<open>None\<close>.
\<close>

definition sample_calc :: calculator where
  "sample_calc =
     \<lparr>wfa = (\<lambda>w a s. Returned NaN),
      lhfa = (\<lambda>h a s. Returned (Finite 1)),
      wfl = (\<lambda>w a s h. Raised),
      bmifa = (\<lambda>b a s. Returned PosInf),
      hcfa = (\<lambda>h a s. ReturnedNone)\<rparr>"






section \<open>Properties of the classifiers\<close>

lemma map5_lookup:
  "[''waz'' \<mapsto> a, ''haz'' \<mapsto> b, ''whz'' \<mapsto> c, ''baz'' \<mapsto> d, ''hcz'' \<mapsto> e] ''waz'' = Some a"
  "[''waz'' \<mapsto> a, ''haz'' \<mapsto> b, ''whz'' \<mapsto> c, ''baz'' \<mapsto> d, ''hcz'' \<mapsto> e] ''haz'' = Some b"
  "[''waz'' \<mapsto> a, ''haz'' \<mapsto> b, ''whz'' \<mapsto> c, ''baz'' \<mapsto> d, ''hcz'' \<mapsto> e] ''whz'' = Some c"
  "[''waz'' \<mapsto> a, ''haz'' \<mapsto> b, ''whz'' \<mapsto> c, ''baz'' \<mapsto> d, ''hcz'' \<mapsto> e] ''baz'' = Some d"
  "[''waz'' \<mapsto> a, ''haz'' \<mapsto> b, ''whz'' \<mapsto> c, ''baz'' \<mapsto> d, ''hcz'' \<mapsto> e] ''hcz'' = Some e"
  by simp_all

lemma map5_dom:
  "dom [''waz'' \<mapsto> a, ''haz'' \<mapsto> b, ''whz'' \<mapsto> c, ''baz'' \<mapsto> d, ''hcz'' \<mapsto> e]
     = {''waz'', ''haz'', ''whz'', ''baz'', ''hcz''}"
  by auto

lemma permenkes_lookup:
  "classify_permenkes_2020 zs ''waz'' = Some (permenkes_waz (dict_get zs ''waz''))"
  "classify_permenkes_2020 zs ''haz'' = Some (permenkes_haz (dict_get zs ''haz''))"
  "classify_permenkes_2020 zs ''whz'' = Some (permenkes_whz (dict_get zs ''whz''))"
  "classify_permenkes_2020 zs ''baz'' = Some (permenkes_baz (dict_get zs ''baz''))"
  "classify_permenkes_2020 zs ''hcz'' = Some (permenkes_hcz (dict_get zs ''hcz''))"
  unfolding classify_permenkes_2020_def by (simp_all only: map5_lookup)

lemma who_lookup:
  "classify_who_standards zs ''waz'' = Some (who_waz (dict_get zs ''waz''))"
  "classify_who_standards zs ''haz'' = Some (who_haz (dict_get zs ''haz''))"
  "classify_who_standards zs ''whz'' = Some (who_whz (dict_get zs ''whz''))"
  "classify_who_standards zs ''baz'' = Some (who_baz (dict_get zs ''baz''))"
  "classify_who_standards zs ''hcz'' = Some (who_hcz (dict_get zs ''hcz''))"
  unfolding classify_who_standards_def by (simp_all only: map5_lookup)

lemma waz_kernel:
  "(permenkes_waz v = permenkes_waz v') = (who_waz v = who_waz v')"
  unfolding permenkes_waz_def who_waz_def
  by (cases v; cases v'; simp) 

lemma haz_kernel:
  "(permenkes_haz v = permenkes_haz v') = (who_haz v = who_haz v')"
  unfolding permenkes_haz_def who_haz_def
  by (cases v; cases v'; simp) 

lemma whz_kernel:
  "(permenkes_whz v = permenkes_whz v') = (who_whz v = who_whz v')"
  unfolding permenkes_whz_def who_whz_def
  by (cases v; cases v'; simp) 

lemma baz_kernel:
  "(permenkes_baz v = permenkes_baz v') = (who_baz v = who_baz v')"
  unfolding permenkes_baz_def who_baz_def
  by (cases v; cases v'; simp) 

lemma hcz_kernel:
  "(permenkes_hcz v = permenkes_hcz v') = (who_hcz v = who_hcz v')"
  unfolding permenkes_hcz_def who_hcz_def
  by (cases v; cases v'; simp) 

lemma baz_normal_band:
  "(permenkes_baz (Some (Finite z)) = ''Gizi Baik (Normal)'') = (- 2 \<le> z \<and> z \<le> 1)"
  "(who_baz (Some (Finite z)) = ''Normal'') = (- 2 \<le> z \<and> z \<le> 1)"
  by (simp_all add: permenkes_baz_def who_baz_def)

lemma hcz_rule:
  "permenkes_hcz (Some (Finite z)) =
     (if \<bar>z\<bar> \<le> 2 then ''Normal'' else if z < - 2 then ''Mikrosefali (perlu evaluasi)''
      else ''Makrosefali (perlu evaluasi)'')"
  "who_hcz (Some (Finite z)) =
     (if \<bar>z\<bar> \<le> 2 then ''Normal'' else if z < - 2 then ''Microcephaly'' else ''Macrocephaly'')"
  by (simp_all add: permenkes_hcz_def who_hcz_def)


text \<open>
  C1, as stated: for every finite BMI-for-age z-score with \<open>1 < baz \<le> 2\<close>,
  \<^verbatim>\<open>classify_permenkes_2020\<close> gives its risk-of-overweight label while
  \<^verbatim>\<open>classify_who_standards\<close> gives \<^verbatim>\<open>Normal\<close>.  At \<open>baz = 1.5\<close> the second
  classifier does not answer \<^verbatim>\<open>Normal\<close>.
\<close>

theorem baz_edge_counterexample:
  "(1::real) < 3 / 2 \<and> (3 / 2 ::real) \<le> 2 \<and>
   classify_who_standards [''baz'' \<mapsto> Some (Finite (3 / 2))] ''baz'' \<noteq> Some ''Normal''"
  by (simp add: who_lookup who_baz_def dict_get_def)

text \<open>
  C1, amended: the upper bound of the normal band of BMI-for-age is \<open>\<le> 1\<close> in both
  classifiers, and for every finite \<open>baz\<close> with \<open>1 < baz \<le> 2\<close> each classifier gives
  its own risk-of-overweight label.
\<close>

theorem baz_edge_same_in_both:
  "dict_get zs ''baz'' = Some (Finite baz) \<Longrightarrow>
   ((classify_permenkes_2020 zs ''baz'' = Some ''Gizi Baik (Normal)'') = (- 2 \<le> baz \<and> baz \<le> 1)) \<and>
   ((classify_who_standards zs ''baz'' = Some ''Normal'') = (- 2 \<le> baz \<and> baz \<le> 1)) \<and>
   (1 < baz \<and> baz \<le> 2 \<longrightarrow>
      classify_permenkes_2020 zs ''baz'' =
        Some ''Berisiko Gizi Lebih (Possible Risk of Overweight)'' \<and>
      classify_who_standards zs ''baz'' = Some ''Risk of overweight'')"
  by (simp add: permenkes_lookup who_lookup permenkes_baz_def who_baz_def)

theorem baz_edge_same_in_both_witness:
  "classify_permenkes_2020 [''baz'' \<mapsto> Some (Finite (3 / 2))] ''baz'' =
     Some ''Berisiko Gizi Lebih (Possible Risk of Overweight)'' \<and>
   classify_who_standards [''baz'' \<mapsto> Some (Finite (3 / 2))] ''baz'' = Some ''Risk of overweight''"
  using baz_edge_same_in_both [of "[''baz'' \<mapsto> Some (Finite (3 / 2))]" "3 / 2"]
  by (simp add: dict_get_def)

text \<open>
  C4: the weight-for-height bands are \<open>z < - 3\<close> severely wasted, \<open>- 3 \<le> z < - 2\<close>
  wasted, \<open>- 2 \<le> z \<le> 2\<close> normal, \<open>2 < z \<le> 3\<close> risk of overweight and
  \<open>3 < z\<close> overweight, in both classifiers.  The five conditions are disjoint and
  cover the reals, and the labels of a classifier are pairwise distinct, so every finite
  \<^verbatim>\<open>whz\<close> has one label; a \<^verbatim>\<open>whz\<close> of \<^verbatim>\<open>None\<close> gets the label for
  missing data.
\<close>

theorem whz_bands:
  "(dict_get zs ''whz'' = Some (Finite z) \<longrightarrow>
      (z < - 3 \<longrightarrow>
         classify_permenkes_2020 zs ''whz'' = Some ''Gizi Buruk (Severely Wasted)'' \<and>
         classify_who_standards zs ''whz'' = Some ''Severely wasted'') \<and>
      (- 3 \<le> z \<and> z < - 2 \<longrightarrow>
         classify_permenkes_2020 zs ''whz'' = Some ''Gizi Kurang (Wasted)'' \<and>
         classify_who_standards zs ''whz'' = Some ''Wasted'') \<and>
      (- 2 \<le> z \<and> z \<le> 2 \<longrightarrow>
         classify_permenkes_2020 zs ''whz'' = Some ''Gizi Baik (Normal)'' \<and>
         classify_who_standards zs ''whz'' = Some ''Normal'') \<and>
      (2 < z \<and> z \<le> 3 \<longrightarrow>
         classify_permenkes_2020 zs ''whz'' =
           Some ''Berisiko Gizi Lebih (Possible Risk of Overweight)'' \<and>
         classify_who_standards zs ''whz'' = Some ''Risk of overweight'') \<and>
      (3 < z \<longrightarrow>
         classify_permenkes_2020 zs ''whz'' = Some ''Gizi Lebih (Overweight)'' \<and>
         classify_who_standards zs ''whz'' = Some ''Overweight'')) \<and>
   (dict_get zs ''whz'' = None \<longrightarrow>
      classify_permenkes_2020 zs ''whz'' = Some ''Data Tidak Tersedia'' \<and>
      classify_who_standards zs ''whz'' = Some ''N/A'') \<and>
   distinct [''Gizi Buruk (Severely Wasted)'', ''Gizi Kurang (Wasted)'', ''Gizi Baik (Normal)'',
             ''Berisiko Gizi Lebih (Possible Risk of Overweight)'', ''Gizi Lebih (Overweight)'',
             ''Data Tidak Tersedia''] \<and>
   distinct [''Severely wasted'', ''Wasted'', ''Normal'', ''Risk of overweight'', ''Overweight'',
             ''N/A'']"
  by (simp add: permenkes_lookup who_lookup permenkes_whz_def who_whz_def)

theorem whz_bands_witness:
  "classify_permenkes_2020 [''whz'' \<mapsto> Some (Finite (- 4))] ''whz'' = Some ''Gizi Buruk (Severely Wasted)'' \<and>
   classify_who_standards [''whz'' \<mapsto> Some (Finite (- 3))] ''whz'' = Some ''Wasted'' \<and>
   classify_permenkes_2020 [''whz'' \<mapsto> Some (Finite 2)] ''whz'' = Some ''Gizi Baik (Normal)'' \<and>
   classify_who_standards [''whz'' \<mapsto> Some (Finite 3)] ''whz'' = Some ''Risk of overweight'' \<and>
   classify_who_standards [''whz'' \<mapsto> Some (Finite 4)] ''whz'' = Some ''Overweight'' \<and>
   classify_permenkes_2020 [''whz'' \<mapsto> None] ''whz'' = Some ''Data Tidak Tersedia'' \<and>
   classify_who_standards Map.empty ''whz'' = Some ''N/A''"
proof -
  have g: "dict_get [''whz'' \<mapsto> v] ''whz'' = v" for v
    by (simp add: dict_get_def)
  have e: "dict_get Map.empty ''whz'' = None"
    by (simp add: dict_get_def)
  have 1: "classify_permenkes_2020 [''whz'' \<mapsto> Some (Finite (- 4))] ''whz'' = Some ''Gizi Buruk (Severely Wasted)''"
    using whz_bands [of "[''whz'' \<mapsto> Some (Finite (- 4))]" "- 4"] by (simp add: g)
  have 2: "classify_who_standards [''whz'' \<mapsto> Some (Finite (- 3))] ''whz'' = Some ''Wasted''"
    using whz_bands [of "[''whz'' \<mapsto> Some (Finite (- 3))]" "- 3"] by (simp add: g)
  have 3: "classify_permenkes_2020 [''whz'' \<mapsto> Some (Finite 2)] ''whz'' = Some ''Gizi Baik (Normal)''"
    using whz_bands [of "[''whz'' \<mapsto> Some (Finite 2)]" 2] by (simp add: g)
  have 4: "classify_who_standards [''whz'' \<mapsto> Some (Finite 3)] ''whz'' = Some ''Risk of overweight''"
    using whz_bands [of "[''whz'' \<mapsto> Some (Finite 3)]" 3] by (simp add: g)
  have 5: "classify_who_standards [''whz'' \<mapsto> Some (Finite 4)] ''whz'' = Some ''Overweight''"
    using whz_bands [of "[''whz'' \<mapsto> Some (Finite 4)]" 4] by (simp add: g)
  have 6: "classify_permenkes_2020 [''whz'' \<mapsto> None] ''whz'' = Some ''Data Tidak Tersedia''"
    using whz_bands [of "[''whz'' \<mapsto> None]" 0] by (simp add: g)
  have 7: "classify_who_standards Map.empty ''whz'' = Some ''N/A''"
    using whz_bands [of Map.empty 0] by (simp add: e)
  from 1 2 3 4 5 6 7 show ?thesis by blast
qed

text \<open>
  C10: the two classifiers put every indicator into the same band.  For each of the five
  keys, two z-score sets get the same Permenkes label exactly when they get the same WHO
  label, so the bands of the two classifiers coincide and only the wording of the labels
  differs; both results have exactly the five keys; the normal band of BMI-for-age is
  \<open>- 2 \<le> z \<le> 1\<close> in both; the head-circumference rule is \<open>\<bar>z\<bar> \<le> 2\<close> normal,
  \<open>z < - 2\<close> microcephaly, \<open>z > 2\<close> macrocephaly in both.
\<close>

theorem classifiers_band_equivalent:
  "((classify_permenkes_2020 zs ''waz'' = classify_permenkes_2020 zs' ''waz'') =
      (classify_who_standards zs ''waz'' = classify_who_standards zs' ''waz'')) \<and>
   ((classify_permenkes_2020 zs ''haz'' = classify_permenkes_2020 zs' ''haz'') =
      (classify_who_standards zs ''haz'' = classify_who_standards zs' ''haz'')) \<and>
   ((classify_permenkes_2020 zs ''whz'' = classify_permenkes_2020 zs' ''whz'') =
      (classify_who_standards zs ''whz'' = classify_who_standards zs' ''whz'')) \<and>
   ((classify_permenkes_2020 zs ''baz'' = classify_permenkes_2020 zs' ''baz'') =
      (classify_who_standards zs ''baz'' = classify_who_standards zs' ''baz'')) \<and>
   ((classify_permenkes_2020 zs ''hcz'' = classify_permenkes_2020 zs' ''hcz'') =
      (classify_who_standards zs ''hcz'' = classify_who_standards zs' ''hcz'')) \<and>
   dom (classify_permenkes_2020 zs) = {''waz'', ''haz'', ''whz'', ''baz'', ''hcz''} \<and>
   dom (classify_who_standards zs) = {''waz'', ''haz'', ''whz'', ''baz'', ''hcz''} \<and>
   (dict_get zs ''baz'' = Some (Finite zb) \<longrightarrow>
      ((classify_permenkes_2020 zs ''baz'' = Some ''Gizi Baik (Normal)'') = (- 2 \<le> zb \<and> zb \<le> 1)) \<and>
      ((classify_who_standards zs ''baz'' = Some ''Normal'') = (- 2 \<le> zb \<and> zb \<le> 1))) \<and>
   (dict_get zs ''hcz'' = Some (Finite zh) \<longrightarrow>
      classify_permenkes_2020 zs ''hcz'' =
        Some (if \<bar>zh\<bar> \<le> 2 then ''Normal''
              else if zh < - 2 then ''Mikrosefali (perlu evaluasi)''
              else ''Makrosefali (perlu evaluasi)'') \<and>
      classify_who_standards zs ''hcz'' =
        Some (if \<bar>zh\<bar> \<le> 2 then ''Normal''
              else if zh < - 2 then ''Microcephaly'' else ''Macrocephaly''))"
proof -
  have k: "(classify_permenkes_2020 zs ''waz'' = classify_permenkes_2020 zs' ''waz'') =
           (classify_who_standards zs ''waz'' = classify_who_standards zs' ''waz'')"
    "(classify_permenkes_2020 zs ''haz'' = classify_permenkes_2020 zs' ''haz'') =
           (classify_who_standards zs ''haz'' = classify_who_standards zs' ''haz'')"
    "(classify_permenkes_2020 zs ''whz'' = classify_permenkes_2020 zs' ''whz'') =
           (classify_who_standards zs ''whz'' = classify_who_standards zs' ''whz'')"
    "(classify_permenkes_2020 zs ''baz'' = classify_permenkes_2020 zs' ''baz'') =
           (classify_who_standards zs ''baz'' = classify_who_standards zs' ''baz'')"
    "(classify_permenkes_2020 zs ''hcz'' = classify_permenkes_2020 zs' ''hcz'') =
           (classify_who_standards zs ''hcz'' = classify_who_standards zs' ''hcz'')"
    by (simp_all only: permenkes_lookup who_lookup option.inject
          waz_kernel haz_kernel whz_kernel baz_kernel hcz_kernel)
  have d: "dom (classify_permenkes_2020 zs) = {''waz'', ''haz'', ''whz'', ''baz'', ''hcz''}"
    "dom (classify_who_standards zs) = {''waz'', ''haz'', ''whz'', ''baz'', ''hcz''}"
    unfolding classify_permenkes_2020_def classify_who_standards_def
    by (simp_all only: map5_dom)
  have b: "dict_get zs ''baz'' = Some (Finite zb) \<longrightarrow>
      ((classify_permenkes_2020 zs ''baz'' = Some ''Gizi Baik (Normal)'') = (- 2 \<le> zb \<and> zb \<le> 1)) \<and>
      ((classify_who_standards zs ''baz'' = Some ''Normal'') = (- 2 \<le> zb \<and> zb \<le> 1))"
    by (simp add: permenkes_lookup who_lookup baz_normal_band)
  have h: "dict_get zs ''hcz'' = Some (Finite zh) \<longrightarrow>
      classify_permenkes_2020 zs ''hcz'' =
        Some (if \<bar>zh\<bar> \<le> 2 then ''Normal''
              else if zh < - 2 then ''Mikrosefali (perlu evaluasi)''
              else ''Makrosefali (perlu evaluasi)'') \<and>
      classify_who_standards zs ''hcz'' =
        Some (if \<bar>zh\<bar> \<le> 2 then ''Normal''
              else if zh < - 2 then ''Microcephaly'' else ''Macrocephaly'')"
    by (simp add: permenkes_lookup who_lookup hcz_rule)
  from k d b h show ?thesis by blast
qed

theorem classifiers_band_equivalent_witness:
  "((classify_permenkes_2020 [''baz'' \<mapsto> Some (Finite 1), ''hcz'' \<mapsto> Some (Finite (- 3))] ''baz''
       = Some ''Gizi Baik (Normal)'') = True) \<and>
   ((classify_who_standards [''baz'' \<mapsto> Some (Finite 1), ''hcz'' \<mapsto> Some (Finite (- 3))] ''baz''
       = Some ''Normal'') = True) \<and>
   classify_permenkes_2020 [''baz'' \<mapsto> Some (Finite 1), ''hcz'' \<mapsto> Some (Finite (- 3))] ''hcz''
       = Some ''Mikrosefali (perlu evaluasi)'' \<and>
   classify_who_standards [''baz'' \<mapsto> Some (Finite 1), ''hcz'' \<mapsto> Some (Finite (- 3))] ''hcz''
       = Some ''Microcephaly''"
  using classifiers_band_equivalent
    [of "[''baz'' \<mapsto> Some (Finite 1), ''hcz'' \<mapsto> Some (Finite (- 3))]" Map.empty 1 "- 3"]
  by (simp add: dict_get_def)

section \<open>Properties of the z-score calculation\<close>

lemma safe_z_calc_clamp:
  "safe_z_calc (Some c) (Returned z) = (if isnan z \<or> isinf z then None else Some z)"
  by (simp add: safe_z_calc_def)

lemma safe_z_calc_clean: "safe_z_calc calc res = Some v \<Longrightarrow> \<not> isnan v \<and> \<not> isinf v"
  by (auto simp: safe_z_calc_def split: option.splits outcome.splits if_splits)

lemma calculate_all_zscores_unavailable:
  "calculate_all_zscores None sex age weight height head_circ =
   Inr [''waz'' \<mapsto> None, ''haz'' \<mapsto> None, ''whz'' \<mapsto> None, ''baz'' \<mapsto> None, ''hcz'' \<mapsto> None]"
  by (simp add: calculate_all_zscores_def)

lemma calculate_all_zscores_returns:
  assumes "\<And>w h e. weight = Some w \<Longrightarrow> height = Some h \<Longrightarrow> 0 < h \<Longrightarrow> float_bmi w h \<noteq> Inl e"
  shows "calculate_all_zscores (Some c) sex age weight height head_circ =
   Inr [''waz'' \<mapsto> (case weight of
                      Some w \<Rightarrow> safe_z_calc (Some c) (wfa c w age sex) | None \<Rightarrow> None),
        ''haz'' \<mapsto> (case height of
                      Some h \<Rightarrow> safe_z_calc (Some c) (lhfa c h age sex) | None \<Rightarrow> None),
        ''whz'' \<mapsto> (case (weight, height) of
                      (Some w, Some h) \<Rightarrow> safe_z_calc (Some c) (wfl c w age sex h)
                    | _ \<Rightarrow> None),
        ''baz'' \<mapsto> (case (weight, height) of
                      (Some w, Some h) \<Rightarrow>
                        if h > 0 then
                          (case float_bmi w h of
                             Inr bmi \<Rightarrow> safe_z_calc (Some c) (bmifa c bmi age sex)
                           | Inl _ \<Rightarrow> None)
                        else None
                    | _ \<Rightarrow> None),
        ''hcz'' \<mapsto> (case head_circ of
                      Some hc \<Rightarrow> safe_z_calc (Some c) (hcfa c hc age sex) | None \<Rightarrow> None)]"
proof (cases weight)
  case None
  then show ?thesis
    by (cases height; cases head_circ)
       (auto simp: calculate_all_zscores_def Let_def fun_upd_twist)
next
  case w: (Some w)
  show ?thesis
  proof (cases height)
    case None
    with w show ?thesis
      by (cases head_circ) (auto simp: calculate_all_zscores_def Let_def fun_upd_twist)
  next
    case h: (Some h)
    show ?thesis
    proof (cases "0 < h")
      case False
      with w h show ?thesis
        by (cases head_circ) (auto simp: calculate_all_zscores_def Let_def fun_upd_twist)
    next
      case True
      with assms w h obtain bmi where "float_bmi w h = Inr bmi"
        by (cases "float_bmi w h") auto
      with w h True show ?thesis
        by (cases head_circ) (auto simp: calculate_all_zscores_def Let_def fun_upd_twist)
    qed
  qed
qed

text \<open>
  Facts of the rounding: a magnitude below half of the least subnormal number rounds to
  zero, and a magnitude of \<open>2 ^ 1024\<close> or more overflows.
\<close>

lemma round_half_even_small: "\<bar>y\<bar> < 1 / 2 \<Longrightarrow> round_half_even y = 0"
proof -
  assume a: "\<bar>y\<bar> < 1 / 2"
  show ?thesis
  proof (cases "0 \<le> y")
    case True
    with a have "\<lfloor>y\<rfloor> = 0" by (simp add: floor_eq_iff)
    with a True show ?thesis by (simp add: round_half_even_def Let_def)
  next
    case False
    with a have "\<lfloor>y\<rfloor> = - 1" by (simp add: floor_eq_iff)
    with a False show ?thesis by (simp add: round_half_even_def Let_def)
  qed
qed

lemma round_half_even_ge: "of_int n \<le> y \<Longrightarrow> n \<le> round_half_even y"
proof -
  assume "of_int n \<le> y"
  then have "n \<le> \<lfloor>y\<rfloor>" by (simp add: le_floor_iff)
  then show ?thesis by (simp add: round_half_even_def Let_def)
qed

lemma round_half_even_le: "y \<le> of_int n \<Longrightarrow> round_half_even y \<le> n"
proof -
  assume a: "y \<le> of_int n"
  show ?thesis
  proof (cases "y = of_int n")
    case True
    then show ?thesis by (simp add: round_half_even_def Let_def)
  next
    case False
    with a have "y < of_int n" by simp
    then have "\<lfloor>y\<rfloor> < n" by (simp add: floor_less_iff)
    then show ?thesis by (simp add: round_half_even_def Let_def)
  qed
qed

lemma round_half_even_of_int: "round_half_even (of_int n) = n"
  by (simp add: round_half_even_def Let_def)

lemma binade_eq:
  assumes "- 1022 \<le> e" "e \<le> 1023" "2 powi e \<le> \<bar>x\<bar>" "\<bar>x\<bar> < 2 powi (e + 1)"
  shows "binade x = e"
proof -
  have "(2::real) powi (- 1022) \<le> 2 powi e"
    using assms(1) by (intro power_int_increasing) simp_all
  with assms(3) have big: "\<not> \<bar>x\<bar> < 2 powi (- 1022)" by linarith
  have "Max {k \<in> {- 1022..1023}. 2 powi k \<le> \<bar>x\<bar>} = e"
  proof (rule Max_eqI)
    show "finite {k \<in> {- 1022..1023}. (2::real) powi k \<le> \<bar>x\<bar>}"
      using finite_atLeastAtMost_int [of "- 1022" 1023] by (rule rev_finite_subset) auto
    show "e \<in> {k \<in> {- 1022..1023}. 2 powi k \<le> \<bar>x\<bar>}" using assms by simp
    fix y assume "y \<in> {k \<in> {- 1022..1023}. 2 powi k \<le> \<bar>x\<bar>}"
    then have y: "2 powi y \<le> \<bar>x\<bar>" by simp
    show "y \<le> e"
    proof (rule ccontr)
      assume "\<not> y \<le> e"
      then have "e + 1 \<le> y" by simp
      then have "(2::real) powi (e + 1) \<le> 2 powi y"
        by (intro power_int_increasing) simp_all
      with y assms(4) show False by linarith
    qed
  qed
  with big show ?thesis by (simp add: binade_def)
qed

lemma binade_top:
  assumes "2 powi 1023 \<le> \<bar>x\<bar>"
  shows "binade x = 1023"
proof -
  have "(2::real) powi (- 1022) \<le> 2 powi 1023"
    by (intro power_int_increasing) simp_all
  with assms have big: "\<not> \<bar>x\<bar> < 2 powi (- 1022)" by linarith
  have "Max {k \<in> {- 1022..1023}. 2 powi k \<le> \<bar>x\<bar>} = 1023"
  proof (rule Max_eqI)
    show "finite {k \<in> {- 1022..1023}. (2::real) powi k \<le> \<bar>x\<bar>}"
      using finite_atLeastAtMost_int [of "- 1022" 1023] by (rule rev_finite_subset) auto
    show "1023 \<in> {k \<in> {- 1022..1023}. 2 powi k \<le> \<bar>x\<bar>}" using assms by simp
    fix y :: int assume "y \<in> {k \<in> {- 1022..1023}. 2 powi k \<le> \<bar>x\<bar>}"
    then show "y \<le> 1023" by simp
  qed
  with big show ?thesis by (simp add: binade_def)
qed

lemma double_round_underflow:
  assumes "\<bar>x\<bar> < 2 powi (- 1075)"
  shows "double_round x = Finite 0"
proof -
  have "(2::real) powi (- 1075) \<le> 2 powi (- 1022)"
    by (intro power_int_increasing) simp_all
  with assms have b: "binade x = - 1022" by (simp add: binade_def)
  have "(2::real) powi (- 1075) = 2 powi (- 1074) / 2"
    by (simp add: power_int_minus)
  with assms have "\<bar>x\<bar> / 2 powi (- 1074) < 1 / 2"
    by (simp add: field_simps)
  then have "\<bar>x / 2 powi (- 1074)\<bar> < 1 / 2" by simp
  then have "round_half_even (x / 2 powi (- 1074)) = 0"
    by (rule round_half_even_small)
  then show ?thesis
    by (simp add: double_round_def b Let_def)
qed

lemma double_round_overflow:
  assumes "2 ^ 1024 \<le> x"
  shows "double_round x = PosInf"
proof -
  have "(0::real) < 2 ^ 1024" by simp
  with assms have x: "0 < x" by linarith
  have "(2::real) powi 1023 \<le> 2 ^ 1024" by simp
  with assms x have b: "binade x = 1023" by (intro binade_top) simp
  have ulp: "(2::real) powi (1023 - 52) = 2 ^ 971" by simp
  have "(2::real) ^ 1024 = 2 ^ 53 * 2 ^ 971" by (simp flip: power_add)
  with assms have "(2::real) ^ 53 \<le> x / 2 ^ 971" by (simp add: field_simps)
  then have "of_int (2 ^ 53) \<le> x / 2 ^ 971" by simp
  then have q: "2 ^ 53 \<le> round_half_even (x / 2 ^ 971)"
    by (rule round_half_even_ge)
  then have "(2::real) ^ 53 \<le> of_int (round_half_even (x / 2 ^ 971))"
    by (metis of_int_le_iff of_int_numeral of_int_power)
  then have "(2::real) ^ 53 * 2 ^ 971 \<le> of_int (round_half_even (x / 2 ^ 971)) * 2 ^ 971"
    by (intro mult_right_mono) simp_all
  then have big: "(2::real) ^ 1024 \<le> of_int (round_half_even (x / 2 ^ 971)) * 2 ^ 971"
    by (simp flip: power_add)
  then have "(2::real) ^ 1024 \<le> \<bar>of_int (round_half_even (x / 2 ^ 971)) * 2 ^ 971\<bar>"
    by linarith
  then show ?thesis
    using x unfolding double_round_def b ulp Let_def by simp
qed

lemma double_round_tiny_height:
  "double_round (1 / 2 ^ 600 / 100) = Finite (5764607523034235 / 2 ^ 659)"
proof -
  have b: "binade (1 / 2 ^ 600 / 100) = - 607"
    by (rule binade_eq) (simp_all add: power_int_minus field_simps)
  have u: "(2::real) powi (- 607 - 52) = 1 / 2 ^ 659"
    by (simp add: power_int_minus field_simps)
  have q: "(1 / 2 ^ 600 / 100) / (1 / 2 ^ 659) = (576460752303423488 / 100 :: real)"
    by simp
  have r: "round_half_even (576460752303423488 / 100) = 5764607523034235"
    by (simp add: round_half_even_def Let_def)
  have small: "\<not> (2::real) ^ 1024 \<le> \<bar>5764607523034235 / 2 ^ 659\<bar>"
    by (simp add: field_simps)
  show ?thesis
    unfolding double_round_def b u q r Let_def using small by simp
qed

lemma flt_truediv_finite:
  "y \<noteq> 0 \<Longrightarrow> flt_truediv (Finite x) (Finite y) = Inr (double_round (x / y))"
  by simp

lemma float_bmi_tiny_height: "float_bmi 10 (1 / 2 ^ 600) = Inl ZeroDivisionError"
proof -
  define q :: real where "q = 5764607523034235 / 2 ^ 659"
  have "\<bar>q * q\<bar> < 2 powi (- 1075)"
    unfolding q_def by (simp add: power_int_minus field_simps)
  then have sq: "double_round (q * q) = Finite 0"
    by (rule double_round_underflow)
  have 1: "flt_truediv (Finite (1 / 2 ^ 600)) (Finite 100) = Inr (Finite q)"
    unfolding q_def
    by (simp only: flt_truediv_finite [of 100] double_round_tiny_height)
  have 2: "flt_pow2 (Finite q) = Inr (Finite 0)"
    by (simp only: flt_pow2.simps sq pyfloat.case)
  have 3: "flt_truediv (Finite 10) (Finite 0) = Inl ZeroDivisionError"
    by simp
  show ?thesis
    unfolding float_bmi_def by (simp only: 1 2 3 sum.case)
qed

lemma double_round_huge_height:
  "double_round (2 ^ 700 / 100) = Finite (5764607523034235 * 2 ^ 641)"
proof -
  have b: "binade (2 ^ 700 / 100) = 693"
    by (rule binade_eq) (simp_all add: field_simps)
  have u: "(2::real) powi (693 - 52) = 2 ^ 641"
    by simp
  have q: "(2 ^ 700 / 100) / 2 ^ 641 = (576460752303423488 / 100 :: real)"
    by simp
  have r: "round_half_even (576460752303423488 / 100) = 5764607523034235"
    by (simp add: round_half_even_def Let_def)
  have small: "\<not> (2::real) ^ 1024 \<le> \<bar>5764607523034235 * 2 ^ 641\<bar>"
    by simp
  show ?thesis
    unfolding double_round_def b u q r Let_def using small by simp
qed

lemma float_bmi_huge_height: "float_bmi 10 (2 ^ 700) = Inl OverflowError"
proof -
  define q :: real where "q = 5764607523034235 * 2 ^ 641"
  have "(2::real) ^ 1024 \<le> q * q"
    unfolding q_def by simp
  then have sq: "double_round (q * q) = PosInf"
    by (rule double_round_overflow)
  have 1: "flt_truediv (Finite (2 ^ 700)) (Finite 100) = Inr (Finite q)"
    unfolding q_def
    by (simp only: flt_truediv_finite [of 100] double_round_huge_height)
  have 2: "flt_pow2 (Finite q) = Inl OverflowError"
    by (simp only: flt_pow2.simps sq pyfloat.case)
  show ?thesis
    unfolding float_bmi_def by (simp only: 1 2 sum.case)
qed

lemma calculate_all_zscores_raises:
  "0 < h \<Longrightarrow> float_bmi w h = Inl e \<Longrightarrow>
   calculate_all_zscores (Some c) sex age (Some w) (Some h) head_circ = Inl e"
  by (simp add: calculate_all_zscores_def Let_def)


text \<open>
  C5: \<^verbatim>\<open>calculate_all_zscores\<close> is to return the five fields and never raise.
  The code computes \<^verbatim>\<open>weight / ((height / 100) ** 2)\<close> behind the guard
  \<^verbatim>\<open>height > 0\<close> only.  For the float \<open>2\<^sup>-\<^sup>6\<^sup>0\<^sup>0\<close>, which is positive, the
  square underflows to zero and the division raises \<^verbatim>\<open>ZeroDivisionError\<close>; for
  \<open>2\<^sup>7\<^sup>0\<^sup>0\<close> the square raises \<^verbatim>\<open>OverflowError\<close>.  Whenever this arithmetic
  raises nothing, the result is the dictionary of \<open>calculate_all_zscores_returns\<close>,
  and it is the dictionary of five \<^verbatim>\<open>None\<close> when the calculator is unavailable.
\<close>

theorem bmi_arithmetic_raises:
  "calculate_all_zscores (Some sample_calc) ''M'' 12 (Some 10) (Some (1 / 2 ^ 600)) None =
     Inl ZeroDivisionError \<and>
   calculate_all_zscores (Some sample_calc) ''M'' 12 (Some 10) (Some (2 ^ 700)) None =
     Inl OverflowError"
proof -
  have 1: "calculate_all_zscores (Some sample_calc) ''M'' 12 (Some 10) (Some (1 / 2 ^ 600)) None =
     Inl ZeroDivisionError"
    by (rule calculate_all_zscores_raises [OF _ float_bmi_tiny_height]) simp
  have 2: "calculate_all_zscores (Some sample_calc) ''M'' 12 (Some 10) (Some (2 ^ 700)) None =
     Inl OverflowError"
    by (rule calculate_all_zscores_raises [OF _ float_bmi_huge_height]) simp
  from 1 2 show ?thesis by (rule conjI)
qed


section \<open>Properties of root finding and curve inversion\<close>

lemma bisect_bounds:
  "min a b \<le> fst (bisect f xtol n a b fa fb) \<and> fst (bisect f xtol n a b fa fb) \<le> max a b"
proof (induction n arbitrary: a b fa fb)
  case 0
  show ?case by (simp add: min_def max_def)
next
  case (Suc n)
  let ?m = "1 / 2 * (a + b)"
  have m: "min a b \<le> ?m" "?m \<le> max a b"
    by (simp_all add: min_def max_def)
  have left: "min a b \<le> min a ?m" "max a ?m \<le> max a b"
    by (simp_all add: min_def max_def)
  have right: "min a b \<le> min ?m b" "max ?m b \<le> max a b"
    by (simp_all add: min_def max_def)
  show ?case
  proof (cases "f ?m")
    case None
    then show ?thesis using m by simp
  next
    case (Some fm)
    show ?thesis
    proof (cases "\<bar>fm\<bar> < 1 / 10 ^ 10 \<or> (b - a) / 2 < xtol")
      case True
      then show ?thesis using Some m by (simp add: Let_def)
    next
      case False
      show ?thesis
      proof (cases "fa * fm < 0")
        case True
        have "fst (bisect f xtol (Suc n) a b fa fb) = fst (bisect f xtol n a ?m fa fm)"
          using Some False True by (simp add: Let_def split_beta)
        then show ?thesis
          using Suc.IH [of a ?m fa fm] left by linarith
      next
        case neg: False
        have "fst (bisect f xtol (Suc n) a b fa fb) = fst (bisect f xtol n ?m b fm fb)"
          using Some False neg by (simp add: Let_def split_beta)
        then show ?thesis
          using Suc.IH [of ?m b fm fb] right by linarith
      qed
    qed
  qed
qed

lemma bisect_iters: "snd (bisect f xtol n a b fa fb) \<le> n"
proof (induction n arbitrary: a b fa fb)
  case 0
  show ?case by simp
next
  case (Suc n)
  show ?case
    using Suc.IH [of a "1 / 2 * (a + b)" fa] Suc.IH [of "1 / 2 * (a + b)" b _ fb]
    by (simp add: Let_def split_beta split: option.splits)
qed

lemma brentq_run_bounds:
  "min a b \<le> fst (brentq_run f a b xtol n) \<and> fst (brentq_run f a b xtol n) \<le> max a b"
proof -
  have mid: "min a b \<le> (a + b) / 2" "(a + b) / 2 \<le> max a b"
    by (simp_all add: min_def max_def)
  show ?thesis
    using mid bisect_bounds [of a b f xtol n]
    by (simp add: brentq_run_def split: option.splits)
qed

lemma brentq_run_iters: "snd (brentq_run f a b xtol n) \<le> n"
  using bisect_iters [of f xtol n a b]
  by (simp add: brentq_run_def split: option.splits)

lemma bisect_converged:
  "f (1 / 2 * (a + b)) = Some fm \<Longrightarrow> \<bar>fm\<bar> < 1 / 10 ^ 10 \<or> (b - a) / 2 < xtol \<Longrightarrow>
   bisect f xtol (Suc n) a b fa fb = (1 / 2 * (a + b), 1)"
  by (simp add: Let_def)

lemma linspace_length: "0 \<le> num \<Longrightarrow> \<exists>xs. linspace lo hi num = Inr xs \<and> length xs = nat num"
  by (simp add: linspace_def)

lemma linspace_bounds:
  assumes "linspace lo hi num = Inr xs" and "lo \<le> hi" and "x \<in> set xs"
  shows "lo \<le> x \<and> x \<le> hi"
proof -
  from assms(1) have num: "0 \<le> num" and
    xs: "xs = map (\<lambda>i. if 1 < num \<and> int i = num - 1 then hi
                        else lo + real i * ((hi - lo) / real_of_int (num - 1))) [0..<nat num]"
    by (auto simp: linspace_def split: if_splits)
  from assms(3) xs obtain i where i: "i < nat num" and
    x: "x = (if 1 < num \<and> int i = num - 1 then hi
             else lo + real i * ((hi - lo) / real_of_int (num - 1)))"
    by auto
  show ?thesis
  proof (cases "1 < num \<and> int i = num - 1")
    case True
    then show ?thesis using x assms(2) by simp
  next
    case False
    show ?thesis
    proof (cases "num = 1")
      case True
      then have "i = 0" using i by simp
      then show ?thesis using x False True assms(2) by simp
    next
      case ne: False
      with i num have pos: "0 < real_of_int (num - 1)" by simp
      have le: "real i \<le> real_of_int (num - 1)" using i by linarith
      define s where "s = real i / real_of_int (num - 1)"
      have s: "0 \<le> s" "s \<le> 1" using pos le by (simp_all add: s_def)
      have xe: "x = lo + s * (hi - lo)" using x False by (simp add: s_def)
      have "0 \<le> s * (hi - lo)" using s assms(2) by simp
      moreover have "s * (hi - lo) \<le> 1 * (hi - lo)"
        using s assms(2) by (intro mult_right_mono) simp_all
      ultimately show ?thesis using xe by simp
    qed
  qed
qed

lemma invert_loop_skip:
  "z_func x = None \<Longrightarrow>
   invert_loop z_func t lo hi (x # xs) lx lf bx ba =
     (fst (invert_loop z_func t lo hi xs lx lf bx ba),
      Suc (snd (invert_loop z_func t lo hi xs lx lf bx ba)))"
  by (simp add: split_beta)

lemma invert_loop_bracket:
  "z_func x = Some z \<Longrightarrow> lf = Some l \<Longrightarrow> (z - t) * l < 0 \<Longrightarrow> lx = Some a \<Longrightarrow>
   invert_loop z_func t lo hi (x # xs) lx lf bx ba =
     (brentq_rootfind (\<lambda>u. Some (or_zero (z_func u) - t)) a x (1 / 10 ^ 5) default_maxiter, 1)"
  by (simp add: Let_def split_beta)

lemma invert_loop_go_on:
  "z_func x = Some z \<Longrightarrow>
   \<not> ((case lf of None \<Rightarrow> False | Some l \<Rightarrow> (z - t) * l < 0) \<and> lx \<noteq> None) \<Longrightarrow>
   invert_loop z_func t lo hi (x # xs) lx lf bx ba =
     (fst (invert_loop z_func t lo hi xs (Some x) (Some (z - t))
             (if flt_lt (Finite \<bar>z - t\<bar>) ba then Some x else bx)
             (if flt_lt (Finite \<bar>z - t\<bar>) ba then Finite \<bar>z - t\<bar> else ba)),
      Suc (snd (invert_loop z_func t lo hi xs (Some x) (Some (z - t))
             (if flt_lt (Finite \<bar>z - t\<bar>) ba then Some x else bx)
             (if flt_lt (Finite \<bar>z - t\<bar>) ba then Finite \<bar>z - t\<bar> else ba))))"
  by (cases lx; cases lf) (simp_all add: Let_def split_beta split: bool.splits)

lemma invert_loop_cases:
  obtains (skip) "z_func x = None"
  | (bracket) z l a where "z_func x = Some z" "lf = Some l" "(z - t) * l < 0" "lx = Some a"
  | (go_on) z where "z_func x = Some z"
      "\<not> ((case lf of None \<Rightarrow> False | Some l \<Rightarrow> (z - t) * l < 0) \<and> lx \<noteq> None)"
  by (cases "z_func x"; cases lf; cases lx) auto

lemma invert_loop_bounds:
  assumes "lo \<le> hi"
  shows "\<forall>x\<in>set xs. lo \<le> x \<and> x \<le> hi \<Longrightarrow>
         (\<forall>a. lx = Some a \<longrightarrow> lo \<le> a \<and> a \<le> hi) \<Longrightarrow>
         (\<forall>b. bx = Some b \<longrightarrow> lo \<le> b \<and> b \<le> hi) \<Longrightarrow>
         lo \<le> fst (invert_loop z_func t lo hi xs lx lf bx ba) \<and>
         fst (invert_loop z_func t lo hi xs lx lf bx ba) \<le> hi"
proof (induction xs arbitrary: lx lf bx ba)
  case Nil
  then show ?case using assms by (cases bx) simp_all
next
  case (Cons x xs)
  from Cons.prems(1) have x: "lo \<le> x" "x \<le> hi" and rest: "\<forall>y\<in>set xs. lo \<le> y \<and> y \<le> hi"
    by simp_all
  show ?case
  proof (cases rule: invert_loop_cases [where z_func = z_func and x = x and lf = lf and t = t and lx = lx])
    case skip
    then show ?thesis
      using Cons.IH [OF rest Cons.prems(2) Cons.prems(3)] by (simp only: invert_loop_skip fst_conv)
  next
    case (bracket z l a)
    from Cons.prems(2) bracket(4) have a: "lo \<le> a" "a \<le> hi" by simp_all
    have "min a x \<le> brentq_rootfind (\<lambda>u. Some (or_zero (z_func u) - t)) a x (1 / 10 ^ 5) default_maxiter"
      "brentq_rootfind (\<lambda>u. Some (or_zero (z_func u) - t)) a x (1 / 10 ^ 5) default_maxiter \<le> max a x"
      unfolding brentq_rootfind_def using brentq_run_bounds by blast+
    then show ?thesis
      using a x by (simp only: invert_loop_bracket [where z_func = z_func, OF bracket] fst_conv) (simp add: min_def max_def split: if_splits)
  next
    case (go_on z)
    have bx': "\<forall>b. (if flt_lt (Finite \<bar>z - t\<bar>) ba then Some x else bx) = Some b \<longrightarrow> lo \<le> b \<and> b \<le> hi"
      using Cons.prems(3) x by simp
    have lx': "\<forall>a. Some x = Some a \<longrightarrow> lo \<le> a \<and> a \<le> hi"
      using x by simp
    show ?thesis
      using Cons.IH [OF rest lx' bx']
      by (simp only: invert_loop_go_on [where z_func = z_func, OF go_on] fst_conv)
  qed
qed

lemma invert_loop_count: "snd (invert_loop z_func t lo hi xs lx lf bx ba) \<le> length xs"
proof (induction xs arbitrary: lx lf bx ba)
  case Nil
  show ?case by simp
next
  case (Cons x xs)
  show ?case
  proof (cases rule: invert_loop_cases [where z_func = z_func and x = x and lf = lf and t = t and lx = lx])
    case skip
    then show ?thesis using Cons.IH by (simp only: invert_loop_skip snd_conv) simp
  next
    case (bracket z l a)
    then show ?thesis by (simp only: invert_loop_bracket [where z_func = z_func, OF bracket] snd_conv) simp
  next
    case (go_on z)
    then show ?thesis using Cons.IH by (simp only: invert_loop_go_on [where z_func = z_func, OF go_on] snd_conv) simp
  qed
qed

lemma usable_samples_simps:
  "usable_samples z_func [] = []"
  "z_func x = None \<Longrightarrow> usable_samples z_func (x # xs) = usable_samples z_func xs"
  "z_func x = Some z \<Longrightarrow> usable_samples z_func (x # xs) = (x, z) # usable_samples z_func xs"
  by (simp_all add: usable_samples_def)

lemma usable_samples_set:
  "p \<in> set (usable_samples z_func xs) \<longleftrightarrow> fst p \<in> set xs \<and> z_func (fst p) = Some (snd p)"
  by (cases p) (auto simp: usable_samples_def split: option.splits)

lemma usable_samples_empty:
  "usable_samples z_func xs = [] \<longleftrightarrow> (\<forall>x\<in>set xs. z_func x = None)"
  by (induction xs) (auto simp: usable_samples_def split: option.splits)

lemma sign_change_tail: "\<not> sign_change (pre @ a # rest) \<Longrightarrow> length pre \<le> 1 \<Longrightarrow> \<not> sign_change (a # rest)"
  by (cases pre; cases "tl pre") auto

lemma invert_loop_no_bracket:
  "\<not> sign_change ((case lf of None \<Rightarrow> [] | Some l \<Rightarrow> [l]) @
                    map (\<lambda>p. snd p - t) (usable_samples z_func xs)) \<Longrightarrow>
   (bx = None \<and> ba = PosInf) \<or> (\<exists>b zb. bx = Some b \<and> z_func b = Some zb \<and> ba = Finite \<bar>zb - t\<bar>) \<Longrightarrow>
   (bx = None \<and> usable_samples z_func xs = [] \<and>
      fst (invert_loop z_func t lo hi xs lx lf bx ba) = (lo + hi) / 2) \<or>
   (\<exists>zv. z_func (fst (invert_loop z_func t lo hi xs lx lf bx ba)) = Some zv \<and>
      (fst (invert_loop z_func t lo hi xs lx lf bx ba) \<in> set xs \<or>
       bx = Some (fst (invert_loop z_func t lo hi xs lx lf bx ba))) \<and>
      (\<forall>p\<in>set (usable_samples z_func xs). \<bar>zv - t\<bar> \<le> \<bar>snd p - t\<bar>) \<and>
      (\<forall>b zb. bx = Some b \<longrightarrow> z_func b = Some zb \<longrightarrow> \<bar>zv - t\<bar> \<le> \<bar>zb - t\<bar>))"
proof (induction xs arbitrary: lx lf bx ba)
  case Nil
  then show ?case by (cases bx) (auto simp: usable_samples_simps)
next
  case (Cons x xs)
  show ?case
  proof (cases rule: invert_loop_cases [where z_func = z_func and x = x and lf = lf and t = t and lx = lx])
    case skip
    have nb: "\<not> sign_change ((case lf of None \<Rightarrow> [] | Some l \<Rightarrow> [l]) @
                    map (\<lambda>p. snd p - t) (usable_samples z_func xs))"
      using Cons.prems(1) skip by (simp add: usable_samples_simps)
    show ?thesis
      using Cons.IH [OF nb Cons.prems(2), of lx]
      by (simp only: invert_loop_skip [where z_func = z_func, OF skip] fst_conv
            usable_samples_simps(2) [where z_func = z_func, OF skip]) auto
  next
    case (bracket z l a)
    then have False
      using Cons.prems(1) by (simp add: usable_samples_simps)
    then show ?thesis ..
  next
    case (go_on z)
    define af where "af = \<bar>z - t\<bar>"
    define bx' where "bx' = (if flt_lt (Finite af) ba then Some x else bx)"
    define ba' where "ba' = (if flt_lt (Finite af) ba then Finite af else ba)"
    define v where "v = fst (invert_loop z_func t lo hi xs (Some x) (Some (z - t)) bx' ba')"
    have run: "fst (invert_loop z_func t lo hi (x # xs) lx lf bx ba) = v"
      unfolding v_def bx'_def ba'_def af_def
      by (simp only: invert_loop_go_on [where z_func = z_func, OF go_on] fst_conv)
    have us: "usable_samples z_func (x # xs) = (x, z) # usable_samples z_func xs"
      using go_on(1) by (simp add: usable_samples_simps)
    have "\<not> sign_change ((case lf of None \<Rightarrow> [] | Some l \<Rightarrow> [l]) @
             (z - t) # map (\<lambda>p. snd p - t) (usable_samples z_func xs))"
      using Cons.prems(1) by (simp add: us)
    then have "\<not> sign_change ((z - t) # map (\<lambda>p. snd p - t) (usable_samples z_func xs))"
      by (rule sign_change_tail) (simp split: option.splits)
    then have nb: "\<not> sign_change ((case Some (z - t) of None \<Rightarrow> [] | Some l \<Rightarrow> [l]) @
                    map (\<lambda>p. snd p - t) (usable_samples z_func xs))"
      by simp
    have inv': "(bx' = None \<and> ba' = PosInf) \<or>
                (\<exists>b zb. bx' = Some b \<and> z_func b = Some zb \<and> ba' = Finite \<bar>zb - t\<bar>)"
      using Cons.prems(2) go_on(1) unfolding bx'_def ba'_def af_def by auto
    have some': "bx' \<noteq> None"
      using Cons.prems(2) unfolding bx'_def by auto
    from Cons.IH [OF nb inv', of "Some x"] some'
    obtain zv where zv: "z_func v = Some zv"
      and mem: "v \<in> set xs \<or> bx' = Some v"
      and least: "\<forall>p\<in>set (usable_samples z_func xs). \<bar>zv - t\<bar> \<le> \<bar>snd p - t\<bar>"
      and best: "\<forall>b zb. bx' = Some b \<longrightarrow> z_func b = Some zb \<longrightarrow> \<bar>zv - t\<bar> \<le> \<bar>zb - t\<bar>"
      unfolding v_def by blast
    have here: "\<bar>zv - t\<bar> \<le> \<bar>z - t\<bar>"
    proof (cases "flt_lt (Finite af) ba")
      case True
      then show ?thesis using best go_on(1) by (simp add: bx'_def)
    next
      case False
      with Cons.prems(2) obtain b zb where b: "bx = Some b" "z_func b = Some zb" "ba = Finite \<bar>zb - t\<bar>"
        by auto
      with False have "\<bar>zb - t\<bar> \<le> \<bar>z - t\<bar>" by (simp add: af_def)
      moreover have "\<bar>zv - t\<bar> \<le> \<bar>zb - t\<bar>" using best b False by (simp add: bx'_def)
      ultimately show ?thesis by linarith
    qed
    have old: "\<forall>b zb. bx = Some b \<longrightarrow> z_func b = Some zb \<longrightarrow> \<bar>zv - t\<bar> \<le> \<bar>zb - t\<bar>"
    proof (intro allI impI)
      fix b zb assume b: "bx = Some b" "z_func b = Some zb"
      show "\<bar>zv - t\<bar> \<le> \<bar>zb - t\<bar>"
      proof (cases "flt_lt (Finite af) ba")
        case True
        with Cons.prems(2) b have "\<bar>z - t\<bar> < \<bar>zb - t\<bar>" by (auto simp: af_def)
        with here show ?thesis by linarith
      next
        case False
        then show ?thesis using best b by (simp add: bx'_def)
      qed
    qed
    have mem': "v \<in> set (x # xs) \<or> bx = Some v"
      using mem unfolding bx'_def by (auto split: if_splits)
    have least': "\<forall>p\<in>set (usable_samples z_func (x # xs)). \<bar>zv - t\<bar> \<le> \<bar>snd p - t\<bar>"
      using least here by (simp add: us)
    show ?thesis
      unfolding run using zv mem' least' old by blast
  qed
qed

lemma invert_run_ok:
  "linspace lo hi samples = Inr xs \<Longrightarrow>
   invert_run z_func t lo hi samples = Inr (invert_loop z_func t lo hi xs None None None PosInf) \<and>
   invert_zscore_function z_func t lo hi samples =
     Inr (fst (invert_loop z_func t lo hi xs None None None PosInf))"
  by (simp add: invert_run_def invert_zscore_function_def)

lemma linspace_0_10_3: "linspace 0 10 3 = Inr [0, 5, 10]"
  by (simp add: linspace_def upt_rec)


text \<open>
  C2: \<^verbatim>\<open>invert_zscore_function\<close> returns a value and raises nothing, for every
  non-negative number of samples (150 by default).  When \<^verbatim>\<open>z_func\<close> is
  \<^verbatim>\<open>None\<close> at every sample point the value is the midpoint \<open>(lo + hi) / 2\<close>; when
  some sample is usable and no two consecutive usable samples bracket the target, it is a
  sample point whose \<open>\<bar>z - target_z\<bar>\<close> is least among the usable samples.
\<close>

theorem invert_fallbacks:
  "0 \<le> samples \<Longrightarrow>
   \<exists>xs v. linspace lo hi samples = Inr xs \<and> length xs = nat samples \<and>
      invert_zscore_function z_func t lo hi samples = Inr v \<and>
      ((\<forall>x\<in>set xs. z_func x = None) \<longrightarrow> v = (lo + hi) / 2) \<and>
      ((\<exists>x\<in>set xs. z_func x \<noteq> None) \<and> \<not> has_bracket z_func t xs \<longrightarrow>
         (\<exists>z. (v, z) \<in> set (usable_samples z_func xs) \<and>
              (\<forall>p\<in>set (usable_samples z_func xs). \<bar>z - t\<bar> \<le> \<bar>snd p - t\<bar>)))"
proof -
  assume "0 \<le> samples"
  then obtain xs where xs: "linspace lo hi samples = Inr xs" "length xs = nat samples"
    using linspace_length by blast
  define v where "v = fst (invert_loop z_func t lo hi xs None None None PosInf)"
  have run: "invert_zscore_function z_func t lo hi samples = Inr v"
    unfolding v_def using invert_run_ok [OF xs(1)] by blast
  have none: "(\<forall>x\<in>set xs. z_func x = None) \<longrightarrow> v = (lo + hi) / 2"
  proof
    assume an: "\<forall>x\<in>set xs. z_func x = None"
    then have e: "usable_samples z_func xs = []"
      by (simp add: usable_samples_empty)
    have "\<not> sign_change ((case None of None \<Rightarrow> [] | Some l \<Rightarrow> [l]) @
             map (\<lambda>p. snd p - t) (usable_samples z_func xs))"
      by (simp add: e)
    from invert_loop_no_bracket
      [where bx = None and ba = PosInf and lx = None and lo = lo and hi = hi, OF this] an
    show "v = (lo + hi) / 2"
      unfolding v_def by auto
  qed
  have best: "(\<exists>x\<in>set xs. z_func x \<noteq> None) \<and> \<not> has_bracket z_func t xs \<longrightarrow>
         (\<exists>z. (v, z) \<in> set (usable_samples z_func xs) \<and>
              (\<forall>p\<in>set (usable_samples z_func xs). \<bar>z - t\<bar> \<le> \<bar>snd p - t\<bar>))"
  proof
    assume a: "(\<exists>x\<in>set xs. z_func x \<noteq> None) \<and> \<not> has_bracket z_func t xs"
    then have ne: "usable_samples z_func xs \<noteq> []"
      by (simp add: usable_samples_empty)
    from a have "\<not> sign_change ((case None of None \<Rightarrow> [] | Some l \<Rightarrow> [l]) @
             map (\<lambda>p. snd p - t) (usable_samples z_func xs))"
      by (simp add: has_bracket_def)
    from invert_loop_no_bracket
      [where bx = None and ba = PosInf and lx = None and lo = lo and hi = hi, OF this] ne
    obtain zv where zv: "z_func v = Some zv" "v \<in> set xs"
      "\<forall>p\<in>set (usable_samples z_func xs). \<bar>zv - t\<bar> \<le> \<bar>snd p - t\<bar>"
      unfolding v_def by auto
    then have "(v, zv) \<in> set (usable_samples z_func xs)"
      by (simp add: usable_samples_set)
    with zv(3) show "\<exists>z. (v, z) \<in> set (usable_samples z_func xs) \<and>
              (\<forall>p\<in>set (usable_samples z_func xs). \<bar>z - t\<bar> \<le> \<bar>snd p - t\<bar>)"
      by blast
  qed
  from xs run none best show ?thesis by blast
qed


theorem invert_fallbacks_witness:
  "invert_zscore_function (\<lambda>x. None) 7 0 10 3 = Inr ((0 + 10) / 2) \<and>
   invert_zscore_function (\<lambda>x. Some x) 20 0 10 3 = Inr 10 \<and>
   (10, 10) \<in> set (usable_samples (\<lambda>x. Some x) [0, 5, 10]) \<and>
   \<not> has_bracket (\<lambda>x. Some x) 20 [0, 5, 10]"
proof -
  have nb: "\<not> has_bracket (\<lambda>x. Some x) 20 [0, 5, 10]"
    by (simp add: has_bracket_def usable_samples_def)
  have us: "usable_samples (\<lambda>x. Some x) [0, 5, 10] = [(0, 0), (5, 5), (10, 10)]"
    by (simp add: usable_samples_def)
  from invert_fallbacks [of 3 0 10 "\<lambda>x. None" 7]
  have 1: "invert_zscore_function (\<lambda>x. None) 7 0 10 3 = Inr ((0 + 10) / 2)"
    by (auto simp: linspace_0_10_3)
  from invert_fallbacks [of 3 0 10 "\<lambda>x. Some x" 20]
  obtain v z where v: "invert_zscore_function (\<lambda>x. Some x) 20 0 10 3 = Inr v"
    "(v, z) \<in> set (usable_samples (\<lambda>x. Some x) [0, 5, 10])"
    "\<forall>p\<in>set (usable_samples (\<lambda>x. Some x) [0, 5, 10]). \<bar>z - 20\<bar> \<le> \<bar>snd p - 20\<bar>"
    using nb by (auto simp: linspace_0_10_3)
  from v(2,3) have "v = 10"
    by (auto simp: us)
  with v(1) have 2: "invert_zscore_function (\<lambda>x. Some x) 20 0 10 3 = Inr 10"
    by simp
  from 1 2 nb show ?thesis by (simp add: us)
qed


text \<open>
  C3: the value of \<^verbatim>\<open>invert_zscore_function\<close> is to lie in \<open>[lo, hi]\<close> for every
  \<open>lo \<le> hi\<close>.  The code forms the sums \<^verbatim>\<open>lo + hi\<close> and \<^verbatim>\<open>a + b\<close> of its
  midpoints in floats, where the sum of two floats of magnitude \<open>2\<^sup>1\<^sup>0\<^sup>2\<^sup>3\<close> is an
  infinity: with \<open>lo = hi = 2\<^sup>1\<^sup>0\<^sup>2\<^sup>3\<close> and a \<^verbatim>\<open>z_func\<close> that is \<^verbatim>\<open>None\<close>
  everywhere it returns \<^verbatim>\<open>inf\<close>, which is not in \<open>[lo, hi]\<close>.  The definitions
  of this development form these sums exactly, so the lemma below is a fact of exact
  arithmetic only: there the value lies in \<open>[lo, hi]\<close>, whichever of the three exits
  produced it, and the value of \<^verbatim>\<open>brentq_rootfind\<close> lies between its end points.
\<close>

lemma invert_within_bounds_exact:
  "(lo \<le> hi \<and> 0 \<le> samples \<longrightarrow>
      (\<exists>v. invert_zscore_function z_func t lo hi samples = Inr v \<and> lo \<le> v \<and> v \<le> hi)) \<and>
   min a b \<le> brentq_rootfind f a b xtol maxiter \<and>
   brentq_rootfind f a b xtol maxiter \<le> max a b"
proof -
  have inv: "lo \<le> hi \<and> 0 \<le> samples \<longrightarrow>
      (\<exists>v. invert_zscore_function z_func t lo hi samples = Inr v \<and> lo \<le> v \<and> v \<le> hi)"
  proof
    assume a: "lo \<le> hi \<and> 0 \<le> samples"
    then obtain xs where xs: "linspace lo hi samples = Inr xs"
      using linspace_length by blast
    have pts: "\<forall>x\<in>set xs. lo \<le> x \<and> x \<le> hi"
      using linspace_bounds [OF xs] a by blast
    have "lo \<le> fst (invert_loop z_func t lo hi xs None None None PosInf) \<and>
          fst (invert_loop z_func t lo hi xs None None None PosInf) \<le> hi"
      using a by (intro invert_loop_bounds pts) simp_all
    then show "\<exists>v. invert_zscore_function z_func t lo hi samples = Inr v \<and> lo \<le> v \<and> v \<le> hi"
      using invert_run_ok [OF xs] by simp
  qed
  have "min a b \<le> brentq_rootfind f a b xtol maxiter"
    "brentq_rootfind f a b xtol maxiter \<le> max a b"
    unfolding brentq_rootfind_def using brentq_run_bounds by blast+
  with inv show ?thesis by blast
qed

lemma invert_within_bounds_exact_example:
  "invert_zscore_function (\<lambda>x. Some x) (5 / 2) 0 10 3 = Inr (5 / 2) \<and>
   (\<exists>v. invert_zscore_function (\<lambda>x. Some x) (5 / 2) 0 10 3 = Inr v \<and> 0 \<le> v \<and> v \<le> 10)"
proof -
  have "invert_zscore_function (\<lambda>x. Some x) (5 / 2) 0 10 3 = Inr (5 / 2)"
    by (simp add: invert_zscore_function_def invert_run_def linspace_0_10_3 Let_def
        brentq_rootfind_def brentq_run_def or_zero_def default_maxiter_def eval_nat_numeral)
  moreover have "\<exists>v. invert_zscore_function (\<lambda>x. Some x) (5 / 2) 0 10 3 = Inr v \<and> 0 \<le> v \<and> v \<le> 10"
    using invert_within_bounds_exact [of 0 10 3 "\<lambda>x. Some x" "5 / 2"] by simp
  ultimately show ?thesis by blast
qed


text \<open>
  C9: \<^verbatim>\<open>brentq_rootfind\<close> runs at most \<^verbatim>\<open>maxiter\<close> iterations (100 by
  default) and returns a value; an iteration whose midpoint has a residual below
  \<open>10\<^sup>-\<^sup>1\<^sup>0\<close> or whose half width is below \<^verbatim>\<open>xtol\<close> (\<open>10\<^sup>-\<^sup>6\<close> by default,
  \<open>10\<^sup>-\<^sup>5\<close> in the call of the inversion) returns the midpoint at once; the inversion
  returns the root at once when it meets a bracket, evaluates \<^verbatim>\<open>z_func\<close> at no more
  than \<^verbatim>\<open>samples\<close> sample points (150 by default), and returns a value.
\<close>

theorem root_finding_bounded:
  "snd (brentq_run f a b xtol maxiter) \<le> maxiter \<and>
   default_maxiter = 100 \<and> default_xtol = 1 / 10 ^ 6 \<and> default_samples = 150 \<and>
   (f (1 / 2 * (a + b)) = Some fm \<and> (\<bar>fm\<bar> < 1 / 10 ^ 10 \<or> (b - a) / 2 < xtol) \<longrightarrow>
      bisect f xtol (Suc n) a b fa fb = (1 / 2 * (a + b), 1)) \<and>
   (z_func x = Some z \<and> (z - t) * l < 0 \<longrightarrow>
      invert_loop z_func t lo hi (x # xs) (Some a) (Some l) bx ba =
        (brentq_rootfind (\<lambda>u. Some (or_zero (z_func u) - t)) a x (1 / 10 ^ 5) default_maxiter, 1)) \<and>
   (0 \<le> samples \<longrightarrow>
      (\<exists>v k. invert_run z_func t lo hi samples = Inr (v, k) \<and> k \<le> nat samples \<and>
             invert_zscore_function z_func t lo hi samples = Inr v))"
proof -
  have 1: "snd (brentq_run f a b xtol maxiter) \<le> maxiter"
    by (rule brentq_run_iters)
  have 2: "default_maxiter = 100" "default_xtol = 1 / 10 ^ 6" "default_samples = 150"
    by (simp_all add: default_maxiter_def default_xtol_def default_samples_def)
  have 3: "f (1 / 2 * (a + b)) = Some fm \<and> (\<bar>fm\<bar> < 1 / 10 ^ 10 \<or> (b - a) / 2 < xtol) \<longrightarrow>
      bisect f xtol (Suc n) a b fa fb = (1 / 2 * (a + b), 1)"
    using bisect_converged [of f a b fm xtol n fa fb] by blast
  have 4: "z_func x = Some z \<and> (z - t) * l < 0 \<longrightarrow>
      invert_loop z_func t lo hi (x # xs) (Some a) (Some l) bx ba =
        (brentq_rootfind (\<lambda>u. Some (or_zero (z_func u) - t)) a x (1 / 10 ^ 5) default_maxiter, 1)"
    using invert_loop_bracket [where z_func = z_func and lf = "Some l" and lx = "Some a"] by blast
  have 5: "0 \<le> samples \<longrightarrow>
      (\<exists>v k. invert_run z_func t lo hi samples = Inr (v, k) \<and> k \<le> nat samples \<and>
             invert_zscore_function z_func t lo hi samples = Inr v)"
  proof
    assume "0 \<le> samples"
    then obtain ys where ys: "linspace lo hi samples = Inr ys" "length ys = nat samples"
      using linspace_length by blast
    obtain v k where vk: "invert_loop z_func t lo hi ys None None None PosInf = (v, k)"
      by (cases "invert_loop z_func t lo hi ys None None None PosInf")
    have "k \<le> nat samples"
      using invert_loop_count [of z_func t lo hi ys None None None PosInf] vk ys(2) by simp
    then show "\<exists>v k. invert_run z_func t lo hi samples = Inr (v, k) \<and> k \<le> nat samples \<and>
             invert_zscore_function z_func t lo hi samples = Inr v"
      using invert_run_ok [OF ys(1), of z_func t] vk by simp
  qed
  from 1 2 3 4 5 show ?thesis by blast
qed

theorem root_finding_bounded_witness:
  "brentq_run (\<lambda>x. Some (x - 1)) 0 4 default_xtol default_maxiter = (1, 2) \<and>
   (2::nat) \<le> default_maxiter \<and>
   invert_run (\<lambda>x. Some x) 20 0 10 3 = Inr (10, 3) \<and>
   invert_loop (\<lambda>x. Some x) (5 / 2) 0 10 [5, 10] (Some 0) (Some (- 5 / 2)) (Some 0) (Finite (5 / 2)) =
     (5 / 2, 1)"
proof -
  have e: "brentq_run (\<lambda>x. Some (x - 1)) 0 4 default_xtol default_maxiter = (1, 2)"
    by (simp add: brentq_run_def default_xtol_def default_maxiter_def eval_nat_numeral Let_def)
  have r: "invert_run (\<lambda>x. Some x) 20 0 10 3 = Inr (10, 3)"
    by (simp add: invert_run_def linspace_0_10_3 Let_def)
  have b: "brentq_rootfind (\<lambda>u. Some (or_zero (Some u) - 5 / 2)) 0 5 (1 / 10 ^ 5) default_maxiter = 5 / 2"
    by (simp add: brentq_rootfind_def brentq_run_def or_zero_def default_maxiter_def
        eval_nat_numeral Let_def)
  note t = root_finding_bounded [where f = "\<lambda>x. Some (x - 1)" and a = 0 and b = 4
      and xtol = default_xtol and maxiter = default_maxiter and fm = 1 and n = 0
      and z_func = "\<lambda>x. Some x" and x = 5 and z = 5 and t = "5 / 2" and l = "- 5 / 2"
      and lo = 0 and hi = 10 and xs = "[10]" and bx = "Some 0" and ba = "Finite (5 / 2)"
      and samples = 3]
  from t e have "(2::nat) \<le> default_maxiter" by simp
  moreover from t b have "invert_loop (\<lambda>x. Some x) (5 / 2) 0 10 [5, 10] (Some 0) (Some (- 5 / 2))
      (Some 0) (Finite (5 / 2)) = (5 / 2, 1)" by simp
  ultimately show ?thesis using e r by blast
qed

section \<open>Properties of the growth velocity analysis\<close>















lemma attention_severities:
  "severity (evaluate_velocity (1 / 4) (0.3, 0.6) ''berat badan'') = ''attention''"
  "severity (evaluate_velocity (3 / 2) (1.3, 1.8) ''tinggi badan'') = ''normal''"
  by (simp_all add: evaluate_velocity_def Let_def)



















end
